theory Spec2Isabelle
  imports Complex_Main
begin

section \<open>Configuration: environment defaults and command-line flags\<close>

text \<open>
  The process environment is a finite map from variable names to values;
  \<open>os.LookupEnv env\<close> is the lookup \<open>environ env\<close>, with \<open>None\<close> for a variable
  that is not present. A variable set to the empty string is present.
\<close>

type_synonym environ = "string \<rightharpoonup> string"

definition envDefault :: "environ \<Rightarrow> string \<Rightarrow> string \<Rightarrow> string" where
  "envDefault environ env def =
     (case environ env of
        Some s \<Rightarrow> s
      | None \<Rightarrow> def)"

record App =
  Listen :: string
  Path :: string
  URI :: string

text \<open>
  \<open>flag.StringVar\<close> stores the default in the variable when the flag is declared, and
  \<open>flag.Parse\<close> then assigns every flag given on the command line, left to right. The
  command line is taken here after tokenisation, as the list of \<open>(name, value)\<close>
  assignments it holds. A flag that was not declared makes \<open>flag.Parse\<close> end the
  process (the default flag set exits on error): the result \<open>None\<close>.
\<close>

fun flag_Parse :: "(string \<times> string) list \<Rightarrow> App \<Rightarrow> App option" where
  "flag_Parse [] app = Some app"
| "flag_Parse ((name, v) # args) app =
     (if name = ''listen'' then flag_Parse args (app\<lparr>Listen := v\<rparr>)
      else if name = ''path'' then flag_Parse args (app\<lparr>Path := v\<rparr>)
      else if name = ''uri'' then flag_Parse args (app\<lparr>URI := v\<rparr>)
      else None)"

text \<open>
  The first four statements of \<open>App.Main\<close>: the three declarations and \<open>flag.Parse\<close>.
  The result is the \<open>App\<close> that the rest of \<open>Main\<close> reads.
\<close>

definition App_Main_flags :: "environ \<Rightarrow> (string \<times> string) list \<Rightarrow> App option" where
  "App_Main_flags environ args =
     flag_Parse args
       \<lparr>Listen = envDefault environ ''ULS_LISTEN'' '':9101'',
        Path = envDefault environ ''ULS_PATH'' ''/metrics'',
        URI = envDefault environ ''ULS_URI'' ''http://localhost:8080''\<rparr>"

text \<open>The value a flag was last given on the command line, if it was given at all.\<close>

definition given :: "(string \<times> string) list \<Rightarrow> string \<Rightarrow> string option" where
  "given args name = map_of (rev args) name"

section \<open>Errors\<close>

text \<open>
  A Go \<open>error\<close> is a value. \<open>ErrorString s\<close> is the error that \<open>fmt.Errorf\<close> makes,
  whose \<open>Error()\<close> text is \<open>s\<close>. \<open>LibError s\<close> is an error handed back by a call that
  leaves the process (URL resolution, the HTTP transport, reading a body, \<open>time.Parse\<close>,
  \<open>uuid.ParseBytes\<close>), known by its text. The others are the errors of
  \<open>encoding/json\<close> and of the metrics library.
\<close>

datatype error =
    LibError string
  | ErrorString string
  | SyntaxError
  | UnmarshalTypeError string string
  | InvalidMetricName string
  | InconsistentCardinality

section \<open>Formatting\<close>

text \<open>The verb \<open>%d\<close> of \<open>fmt\<close>: an integer in decimal, with a minus sign when negative.\<close>

fun itoa_nat :: "nat \<Rightarrow> string" where
  "itoa_nat n =
     (if n < 10 then [''0123456789'' ! n]
      else itoa_nat (n div 10) @ [''0123456789'' ! (n mod 10)])"

declare itoa_nat.simps [simp del]

definition itoa :: "int \<Rightarrow> string" where
  "itoa i = (if i < 0 then CHR ''-'' # itoa_nat (nat (- i)) else itoa_nat (nat i))"

text \<open>\<open>fmt.Errorf("%d %s", d, s)\<close>.\<close>

definition fmt_Errorf_d_s :: "int \<Rightarrow> string \<Rightarrow> error" where
  "fmt_Errorf_d_s d s = ErrorString (itoa d @ '' '' @ s)"

section \<open>JSON documents\<close>

text \<open>
  A JSON value as \<open>encoding/json\<close> scans it: an object keeps its members in the order
  of the text, duplicates included, and a number keeps its literal. A byte slice given
  to \<open>encoding/json\<close> is modelled by the document it holds: \<open>None\<close> when the bytes are not
  a valid JSON text (\<open>checkValid\<close> rejects them), \<open>Some j\<close> when they are the value \<open>j\<close>.
\<close>

datatype json =
    JNull
  | JBool bool
  | JNumber string
  | JString string
  | JArray "json list"
  | JObject "(string \<times> json) list"

type_synonym bytes = "json option"

section \<open>Data model\<close>

text \<open>
  A \<open>time.Time\<close> is taken as an instant, an integer, the zero \<open>Time\<close> being \<open>0\<close>;
  \<open>TimeUTC\<close> is the named type over it. A \<open>uuid.UUID\<close> is sixteen bytes, taken as the
  number they spell. A slice is \<open>None\<close> when \<open>nil\<close>, and \<open>len\<close> of a \<open>nil\<close> slice is \<open>0\<close>.
\<close>

type_synonym Time = int

datatype TimeUTC = TimeUTC Time

type_synonym UUID = nat

definition TimeUTCFormat :: string where
  "TimeUTCFormat = ''2006-01-02T15:04:05.999999Z07:00''"

definition len :: "'a list option \<Rightarrow> nat" where
  "len s = (case s of None \<Rightarrow> 0 | Some xs \<Rightarrow> length xs)"

record ULSClientEntitlementContext =
  EnvironmentDomain :: string
  EnvironmentHostname :: string
  EnvironmentUser :: string
  LegacyMachineBinding1 :: string
  LegacyMachineBinding2 :: string
  LegacyMachineBinding5 :: string

record ULSLease =
  FloatingLeaseID :: int
  Token :: UUID
  CreatedTimeUTC :: TimeUTC
  LastRenewalTimeUTC :: TimeUTC
  IsRevoked :: bool
  ClientEntitlementContext :: ULSClientEntitlementContext
  EntitlementGroupIDs :: "string list option"

text \<open>The zero values of the two structs, which a fresh slice element holds.\<close>

definition zero_Context :: ULSClientEntitlementContext where
  "zero_Context =
     \<lparr>EnvironmentDomain = [], EnvironmentHostname = [], EnvironmentUser = [],
      LegacyMachineBinding1 = [], LegacyMachineBinding2 = [], LegacyMachineBinding5 = []\<rparr>"

definition zero_Lease :: ULSLease where
  "zero_Lease =
     \<lparr>FloatingLeaseID = 0, Token = 0, CreatedTimeUTC = TimeUTC 0,
      LastRenewalTimeUTC = TimeUTC 0, IsRevoked = False,
      ClientEntitlementContext = zero_Context, EntitlementGroupIDs = None\<rparr>"

section \<open>The world outside the process\<close>

text \<open>
  What one scrape sees of the libraries and of the network. A URL is taken in its
  textual form. A response carries its status code, its status line and what
  \<open>ioutil.ReadAll\<close> makes of its body. \<open>strconv_ParseInt\<close> is \<open>strconv.ParseInt\<close> in
  base 10 and 64 bits; \<open>equalFold\<close> is the case-folding comparison that
  \<open>encoding/json\<close> uses to match an object key with a field name.
\<close>

type_synonym URL = string

record Response =
  StatusCode :: int
  Status :: string
  Body :: "error + bytes"

record world =
  url_Parse :: "string \<Rightarrow> error + URL"
  URL_Parse :: "URL \<Rightarrow> string \<Rightarrow> error + URL"
  http_Get :: "string \<Rightarrow> error + Response"
  time_Parse :: "string \<Rightarrow> string \<Rightarrow> error + Time"
  uuid_ParseBytes :: "string \<Rightarrow> error + UUID"
  strconv_ParseInt :: "string \<Rightarrow> int option"
  equalFold :: "string \<Rightarrow> string \<Rightarrow> bool"

definition URL_String :: "URL \<Rightarrow> string" where
  "URL_String u = u"

section \<open>Decoding JSON into Go values\<close>

text \<open>
  \<open>encoding/json\<close> decodes a value into a Go variable and keeps two kinds of error
  apart. A value of the wrong JSON type for its target is recorded with \<open>saveError\<close>
  (only the first one is kept), the target is left as it was, and decoding goes on. An
  error returned by an \<open>UnmarshalJSON\<close> or \<open>UnmarshalText\<close> method stops decoding at
  once. A decoder therefore takes the JSON value, the current content of the target
  and the saved error, and gives back the new content, the saved error and the
  stopping error, if any.
\<close>

type_synonym 'a decoder =
  "json \<Rightarrow> 'a \<Rightarrow> error option \<Rightarrow> 'a \<times> error option \<times> error option"

definition saveError :: "error \<Rightarrow> error option \<Rightarrow> error option" where
  "saveError e sv = (case sv of None \<Rightarrow> Some e | Some e0 \<Rightarrow> Some e0)"

text \<open>The field \<open>Value\<close> of an \<open>UnmarshalTypeError\<close>: the JSON type that was met.\<close>

fun json_type :: "json \<Rightarrow> string" where
  "json_type JNull = ''null''"
| "json_type (JBool b) = ''bool''"
| "json_type (JNumber lit) = ''number''"
| "json_type (JString s) = ''string''"
| "json_type (JArray js) = ''array''"
| "json_type (JObject kvs) = ''object''"

definition mismatch :: "string \<Rightarrow> 'a decoder" where
  "mismatch ty j v sv = (v, saveError (UnmarshalTypeError (json_type j) ty) sv, None)"

text \<open>
  Targets of kind string, bool and int. The JSON \<open>null\<close> has no effect on a target
  that is not a pointer, a slice, a map or an interface, and is no error.
\<close>

fun decode_string :: "string decoder" where
  "decode_string JNull v sv = (v, sv, None)"
| "decode_string (JString s) v sv = (s, sv, None)"
| "decode_string j v sv = mismatch ''string'' j v sv"

fun decode_bool :: "bool decoder" where
  "decode_bool JNull v sv = (v, sv, None)"
| "decode_bool (JBool b) v sv = (b, sv, None)"
| "decode_bool j v sv = mismatch ''bool'' j v sv"

fun decode_int :: "world \<Rightarrow> int decoder" where
  "decode_int w JNull v sv = (v, sv, None)"
| "decode_int w (JNumber lit) v sv =
     (case strconv_ParseInt w lit of
        None \<Rightarrow> (v, saveError (UnmarshalTypeError (''number '' @ lit) ''int'') sv, None)
      | Some n \<Rightarrow> (n, sv, None))"
| "decode_int w j v sv = mismatch ''int'' j v sv"

text \<open>
  \<open>uuid.UUID\<close> has the method \<open>UnmarshalText\<close>, which \<open>encoding/json\<close> calls on a JSON
  string; the method parses the text and its error stops decoding.
\<close>

fun decode_UUID :: "world \<Rightarrow> UUID decoder" where
  "decode_UUID w JNull v sv = (v, sv, None)"
| "decode_UUID w (JString s) v sv =
     (case uuid_ParseBytes w s of
        Inl e \<Rightarrow> (v, sv, Some e)
      | Inr u \<Rightarrow> (u, sv, None))"
| "decode_UUID w j v sv = mismatch ''uuid.UUID'' j v sv"

text \<open>
  A JSON array into a slice. Element \<open>i\<close> is decoded into the element the slice
  already has at \<open>i\<close>, or into a zero value \<open>z\<close> when the slice is shorter; at the end
  the slice is cut to the number of elements read, and an empty array gives an empty
  slice that is not \<open>nil\<close>. When an element stops decoding, the slice stays as it is at
  that moment. \<open>cur\<close> is what is left of the old content, \<open>acc\<close> the elements done.
\<close>

fun decode_elems ::
  "'a decoder \<Rightarrow> 'a \<Rightarrow> json list \<Rightarrow> 'a list \<Rightarrow> 'a list \<Rightarrow> error option
     \<Rightarrow> 'a list \<times> error option \<times> error option" where
  "decode_elems dec z [] cur acc sv = (acc, sv, None)"
| "decode_elems dec z (j # js) cur acc sv =
     (case dec j (case cur of [] \<Rightarrow> z | c # cs \<Rightarrow> c) sv of
        (x, sv', Some e) \<Rightarrow> (acc @ x # tl cur, sv', Some e)
      | (x, sv', None) \<Rightarrow> decode_elems dec z js (tl cur) (acc @ [x]) sv')"

definition decode_slice :: "string \<Rightarrow> 'a decoder \<Rightarrow> 'a \<Rightarrow> 'a list option decoder" where
  "decode_slice ty dec z j v sv =
     (case j of
        JNull \<Rightarrow> (None, sv, None)
      | JArray js \<Rightarrow>
          (case decode_elems dec z js (case v of None \<Rightarrow> [] | Some xs \<Rightarrow> xs) [] sv of
             (xs, sv', e) \<Rightarrow> (Some xs, sv', e))
      | _ \<Rightarrow> mismatch ty j v sv)"

text \<open>
  A JSON object into a struct. Each member is looked up among the JSON names of the
  fields, first by exact name, then by case folding in the order of declaration; a
  member that matches no field is skipped.
\<close>

definition find_field ::
  "(string \<Rightarrow> string \<Rightarrow> bool) \<Rightarrow> string list \<Rightarrow> string \<Rightarrow> string option" where
  "find_field eqf names key =
     (if key \<in> set names then Some key else find (\<lambda>n. eqf n key) names)"

fun decode_object ::
  "(string \<Rightarrow> string \<Rightarrow> bool) \<Rightarrow> string list \<Rightarrow> (string \<Rightarrow> 'a decoder)
     \<Rightarrow> (string \<times> json) list \<Rightarrow> 'a \<Rightarrow> error option \<Rightarrow> 'a \<times> error option \<times> error option" where
  "decode_object eqf names field_dec [] v sv = (v, sv, None)"
| "decode_object eqf names field_dec ((k, j) # kvs) v sv =
     (case find_field eqf names k of
        None \<Rightarrow> decode_object eqf names field_dec kvs v sv
      | Some f \<Rightarrow>
          (case field_dec f j v sv of
             (v', sv', Some e) \<Rightarrow> (v', sv', Some e)
           | (v', sv', None) \<Rightarrow> decode_object eqf names field_dec kvs v' sv'))"

definition decode_struct ::
  "string \<Rightarrow> (string \<Rightarrow> string \<Rightarrow> bool) \<Rightarrow> string list \<Rightarrow> (string \<Rightarrow> 'a decoder)
     \<Rightarrow> 'a decoder" where
  "decode_struct ty eqf names field_dec j v sv =
     (case j of
        JNull \<Rightarrow> (v, sv, None)
      | JObject kvs \<Rightarrow> decode_object eqf names field_dec kvs v sv
      | _ \<Rightarrow> mismatch ty j v sv)"

text \<open>Storing what a decoder made of a field back into the struct.\<close>

definition store ::
  "('a \<Rightarrow> 'r) \<Rightarrow> 'a \<times> error option \<times> error option \<Rightarrow> 'r \<times> error option \<times> error option" where
  "store upd r = (case r of (x, sv, e) \<Rightarrow> (upd x, sv, e))"

text \<open>
  \<open>json.Unmarshal(b, &v)\<close>: the bytes are checked first, and nothing is decoded when
  they are not valid JSON. Otherwise the value is decoded, and the error is the one
  that stopped decoding or else the saved one. The variable is returned with the
  error, as decoding may have changed it before failing.
\<close>

definition json_Unmarshal :: "'a decoder \<Rightarrow> bytes \<Rightarrow> 'a \<Rightarrow> 'a \<times> error option" where
  "json_Unmarshal dec b v =
     (case b of
        None \<Rightarrow> (v, Some SyntaxError)
      | Some j \<Rightarrow>
          (case dec j v None of
             (v', sv, Some e) \<Rightarrow> (v', Some e)
           | (v', sv, None) \<Rightarrow> (v', sv)))"

section \<open>TimeUTC\<close>

text \<open>
  The body of \<open>TimeUTC.UnmarshalJSON\<close>, as a function of the method's own variable
  \<open>t\<close>: it gives back what \<open>t\<close> holds when the method returns, and the error.
\<close>

definition TimeUTC_UnmarshalJSON :: "world \<Rightarrow> TimeUTC \<Rightarrow> bytes \<Rightarrow> TimeUTC \<times> error option" where
  "TimeUTC_UnmarshalJSON w t b =
     (case json_Unmarshal decode_string b [] of
        (s, Some e) \<Rightarrow> (t, Some e)
      | (s, None) \<Rightarrow>
          (case time_Parse w TimeUTCFormat s of
             Inl e \<Rightarrow> (t, Some e)
           | Inr parsed \<Rightarrow> (TimeUTC parsed, None)))"

text \<open>
  The receiver of \<open>UnmarshalJSON\<close> is a value, not a pointer: the method runs on a copy
  of the variable it is called on. For the caller the variable is what it was, and
  only the result of the method comes back.
\<close>

definition value_receiver_call :: "('r \<Rightarrow> 'r \<times> 'e) \<Rightarrow> 'r \<Rightarrow> 'r \<times> 'e" where
  "value_receiver_call m recv = (recv, snd (m recv))"

text \<open>
  A target of type \<open>TimeUTC\<close> is addressable and its pointer has \<open>UnmarshalJSON\<close> in
  its method set, so \<open>encoding/json\<close> hands every JSON value met there, \<open>null\<close>
  included, to the method, and the method's error stops decoding.
\<close>

definition decode_TimeUTC :: "world \<Rightarrow> TimeUTC decoder" where
  "decode_TimeUTC w j t sv =
     (case value_receiver_call (\<lambda>t. TimeUTC_UnmarshalJSON w t (Some j)) t of
        (t', e) \<Rightarrow> (t', sv, e))"

section \<open>Decoding leases\<close>

definition context_fields :: "string list" where
  "context_fields =
     [''EnvironmentDomain'', ''EnvironmentHostname'', ''EnvironmentUser'',
      ''Legacy.MachineBinding1'', ''Legacy.MachineBinding2'', ''Legacy.MachineBinding5'']"

definition decode_context_field :: "string \<Rightarrow> ULSClientEntitlementContext decoder" where
  "decode_context_field f j c sv =
     (if f = ''EnvironmentDomain'' then
        store (\<lambda>x. c\<lparr>EnvironmentDomain := x\<rparr>) (decode_string j (EnvironmentDomain c) sv)
      else if f = ''EnvironmentHostname'' then
        store (\<lambda>x. c\<lparr>EnvironmentHostname := x\<rparr>) (decode_string j (EnvironmentHostname c) sv)
      else if f = ''EnvironmentUser'' then
        store (\<lambda>x. c\<lparr>EnvironmentUser := x\<rparr>) (decode_string j (EnvironmentUser c) sv)
      else if f = ''Legacy.MachineBinding1'' then
        store (\<lambda>x. c\<lparr>LegacyMachineBinding1 := x\<rparr>) (decode_string j (LegacyMachineBinding1 c) sv)
      else if f = ''Legacy.MachineBinding2'' then
        store (\<lambda>x. c\<lparr>LegacyMachineBinding2 := x\<rparr>) (decode_string j (LegacyMachineBinding2 c) sv)
      else if f = ''Legacy.MachineBinding5'' then
        store (\<lambda>x. c\<lparr>LegacyMachineBinding5 := x\<rparr>) (decode_string j (LegacyMachineBinding5 c) sv)
      else (c, sv, None))"

definition decode_Context :: "world \<Rightarrow> ULSClientEntitlementContext decoder" where
  "decode_Context w =
     decode_struct ''main.ULSClientEntitlementContext'' (equalFold w) context_fields
       decode_context_field"

definition lease_fields :: "string list" where
  "lease_fields =
     [''floatingLeaseId'', ''token'', ''createdTimeUtc'', ''lastRenewalTimeUtc'',
      ''isRevoked'', ''clientEntitlementContext'', ''entitlementGroupIds'']"

definition decode_lease_field :: "world \<Rightarrow> string \<Rightarrow> ULSLease decoder" where
  "decode_lease_field w f j l sv =
     (if f = ''floatingLeaseId'' then
        store (\<lambda>x. l\<lparr>FloatingLeaseID := x\<rparr>) (decode_int w j (FloatingLeaseID l) sv)
      else if f = ''token'' then
        store (\<lambda>x. l\<lparr>Token := x\<rparr>) (decode_UUID w j (Token l) sv)
      else if f = ''createdTimeUtc'' then
        store (\<lambda>x. l\<lparr>CreatedTimeUTC := x\<rparr>) (decode_TimeUTC w j (CreatedTimeUTC l) sv)
      else if f = ''lastRenewalTimeUtc'' then
        store (\<lambda>x. l\<lparr>LastRenewalTimeUTC := x\<rparr>) (decode_TimeUTC w j (LastRenewalTimeUTC l) sv)
      else if f = ''isRevoked'' then
        store (\<lambda>x. l\<lparr>IsRevoked := x\<rparr>) (decode_bool j (IsRevoked l) sv)
      else if f = ''clientEntitlementContext'' then
        store (\<lambda>x. l\<lparr>ClientEntitlementContext := x\<rparr>)
          (decode_Context w j (ClientEntitlementContext l) sv)
      else if f = ''entitlementGroupIds'' then
        store (\<lambda>x. l\<lparr>EntitlementGroupIDs := x\<rparr>)
          (decode_slice ''[]string'' decode_string [] j (EntitlementGroupIDs l) sv)
      else (l, sv, None))"

definition decode_Lease :: "world \<Rightarrow> ULSLease decoder" where
  "decode_Lease w =
     decode_struct ''main.ULSLease'' (equalFold w) lease_fields (decode_lease_field w)"

definition decode_Leases :: "world \<Rightarrow> ULSLease list option decoder" where
  "decode_Leases w = decode_slice ''[]main.ULSLease'' (decode_Lease w) zero_Lease"

section \<open>Metric descriptors and samples\<close>

text \<open>
  \<open>prometheus.BuildFQName\<close> joins the parts that are not empty with an underscore, and
  gives the empty name when the last part is empty.
\<close>

definition BuildFQName :: "string \<Rightarrow> string \<Rightarrow> string \<Rightarrow> string" where
  "BuildFQName ns subsystem name =
     (if name = [] then []
      else if ns \<noteq> [] \<and> subsystem \<noteq> [] then ns @ ''_'' @ subsystem @ ''_'' @ name
      else if ns \<noteq> [] then ns @ ''_'' @ name
      else if subsystem \<noteq> [] then subsystem @ ''_'' @ name
      else name)"

text \<open>
  A metric name is a letter, an underscore or a colon, followed by any number of
  those and of digits.
\<close>

definition name_start :: "char \<Rightarrow> bool" where
  "name_start c \<longleftrightarrow>
     c \<in> set ''abcdefghijklmnopqrstuvwxyzABCDEFGHIJKLMNOPQRSTUVWXYZ_:''"

definition IsValidMetricName :: "string \<Rightarrow> bool" where
  "IsValidMetricName n =
     (case n of
        [] \<Rightarrow> False
      | c # cs \<Rightarrow> name_start c \<and> list_all (\<lambda>b. name_start b \<or> b \<in> set ''0123456789'') cs)"

text \<open>
  A descriptor keeps the error met when it was built, and every metric made from it
  later fails with that error. Both descriptors of this program are built without
  labels, so of the checks of \<open>NewDesc\<close> only the one on the name can fail.
\<close>

record Desc =
  fqName :: string
  helpText :: string
  variableLabels :: "string list"
  constLabels :: "(string \<times> string) list"
  descErr :: "error option"

definition NewDesc :: "string \<Rightarrow> string \<Rightarrow> string list \<Rightarrow> (string \<times> string) list \<Rightarrow> Desc" where
  "NewDesc fq h vl cl =
     \<lparr>fqName = fq, helpText = h, variableLabels = vl, constLabels = cl,
      descErr = (if IsValidMetricName fq then None else Some (InvalidMetricName fq))\<rparr>"

definition namespace :: string where
  "namespace = ''uls''"

definition up :: Desc where
  "up = NewDesc (BuildFQName namespace [] ''up'') ''ULS is up and running'' [] []"

definition lease :: Desc where
  "lease = NewDesc (BuildFQName namespace [] ''leases'') ''Number of active ULS leases'' [] []"

datatype ValueType = CounterValue | GaugeValue | UntypedValue

record Metric =
  metricDesc :: Desc
  valueType :: ValueType
  metricValue :: real
  labelValues :: "string list"

text \<open>
  \<open>prometheus.NewConstMetric\<close> fails on a descriptor that carries an error and on a
  number of label values other than the number of variable labels;
  \<open>MustNewConstMetric\<close> panics with that error.
\<close>

definition NewConstMetric :: "Desc \<Rightarrow> ValueType \<Rightarrow> real \<Rightarrow> string list \<Rightarrow> error + Metric" where
  "NewConstMetric d vt v lvs =
     (case descErr d of
        Some e \<Rightarrow> Inl e
      | None \<Rightarrow>
          if length lvs \<noteq> length (variableLabels d) then Inl InconsistentCardinality
          else Inr \<lparr>metricDesc = d, valueType = vt, metricValue = v, labelValues = lvs\<rparr>)"

section \<open>The exporter\<close>

record ULSExporter =
  BaseURL :: URL

definition NewULSExporter :: "world \<Rightarrow> string \<Rightarrow> error + ULSExporter" where
  "NewULSExporter w baseURL =
     (case url_Parse w baseURL of
        Inl e \<Rightarrow> Inl e
      | Inr u \<Rightarrow> Inr \<lparr>BaseURL = u\<rparr>)"

text \<open>\<open>Describe\<close> sends on its channel; the result is what was sent, in order.\<close>

definition Describe :: "ULSExporter \<Rightarrow> Desc list" where
  "Describe e = [up, lease]"

text \<open>
  \<open>GetLeases\<close> returns a pair, the slice and the error, as the Go function does; the
  type lets a slice that is not \<open>nil\<close> come with an error, and the function decides.
  The deferred \<open>res.Body.Close()\<close> releases the connection and has no part in the
  result.
\<close>

definition GetLeases :: "world \<Rightarrow> ULSExporter \<Rightarrow> ULSLease list option \<times> error option" where
  "GetLeases w e =
     (case URL_Parse w (BaseURL e) ''/v1/admin/lease'' of
        Inl err \<Rightarrow> (None, Some err)
      | Inr leaseURL \<Rightarrow>
          (case http_Get w (URL_String leaseURL) of
             Inl err \<Rightarrow> (None, Some err)
           | Inr res \<Rightarrow>
               if StatusCode res \<noteq> 200 then
                 (None, Some (fmt_Errorf_d_s (StatusCode res) (Status res)))
               else
                 (case Body res of
                    Inl err \<Rightarrow> (None, Some err)
                  | Inr b \<Rightarrow>
                      (case json_Unmarshal (decode_Leases w) b None of
                         (leases, Some err) \<Rightarrow> (None, Some err)
                       | (leases, None) \<Rightarrow> (leases, None)))))"

text \<open>
  One run of \<open>Collect\<close>: the metrics sent on the channel, in order, the errors given
  to \<open>log.Println\<close>, and the panic that ended the run, if one did. \<open>float64\<close> of a
  length is exact below \<open>2 ^ 53\<close>, far above the length of any slice that fits in
  memory, and is taken as the real number.
\<close>

record Collected =
  sent :: "Metric list"
  logged :: "error list"
  panicked :: "error option"

definition Collect :: "world \<Rightarrow> ULSExporter \<Rightarrow> Collected" where
  "Collect w e =
     (case GetLeases w e of
        (leases, Some err) \<Rightarrow>
          (case NewConstMetric up GaugeValue 0 [] of
             Inl p \<Rightarrow> \<lparr>sent = [], logged = [], panicked = Some p\<rparr>
           | Inr m \<Rightarrow> \<lparr>sent = [m], logged = [err], panicked = None\<rparr>)
      | (leases, None) \<Rightarrow>
          (case NewConstMetric up GaugeValue 1 [] of
             Inl p \<Rightarrow> \<lparr>sent = [], logged = [], panicked = Some p\<rparr>
           | Inr m1 \<Rightarrow>
               (case NewConstMetric lease GaugeValue (real (len leases)) [] of
                  Inl p \<Rightarrow> \<lparr>sent = [m1], logged = [], panicked = Some p\<rparr>
                | Inr m2 \<Rightarrow> \<lparr>sent = [m1, m2], logged = [], panicked = None\<rparr>)))"

section \<open>Well-formed lease records\<close>

text \<open>
  The JSON values that the upstream contract allows for each field of a lease: an
  integer literal, the text of a UUID, a timestamp in the fixed format, a boolean, an
  object of strings, an array of strings. A field may be absent, and \<open>null\<close> is allowed
  wherever the decoder takes it for "not present", which is everywhere but at a
  timestamp. Members that match no field may hold anything.
\<close>

fun string_json :: "json \<Rightarrow> bool" where
  "string_json JNull = True"
| "string_json (JString s) = True"
| "string_json j = False"

fun bool_json :: "json \<Rightarrow> bool" where
  "bool_json JNull = True"
| "bool_json (JBool b) = True"
| "bool_json j = False"

fun int_json :: "world \<Rightarrow> json \<Rightarrow> bool" where
  "int_json w JNull = True"
| "int_json w (JNumber lit) = (strconv_ParseInt w lit \<noteq> None)"
| "int_json w j = False"

fun UUID_json :: "world \<Rightarrow> json \<Rightarrow> bool" where
  "UUID_json w JNull = True"
| "UUID_json w (JString s) = (case uuid_ParseBytes w s of Inl e \<Rightarrow> False | Inr u \<Rightarrow> True)"
| "UUID_json w j = False"

fun timestamp_json :: "world \<Rightarrow> json \<Rightarrow> bool" where
  "timestamp_json w (JString s) =
     (case time_Parse w TimeUTCFormat s of Inl e \<Rightarrow> False | Inr t \<Rightarrow> True)"
| "timestamp_json w j = False"

fun strings_json :: "json \<Rightarrow> bool" where
  "strings_json JNull = True"
| "strings_json (JArray js) = list_all string_json js"
| "strings_json j = False"

definition members_ok ::
  "(string \<Rightarrow> string \<Rightarrow> bool) \<Rightarrow> string list \<Rightarrow> (string \<Rightarrow> json \<Rightarrow> bool)
     \<Rightarrow> (string \<times> json) list \<Rightarrow> bool" where
  "members_ok eqf names ok kvs =
     list_all (\<lambda>(k, j). case find_field eqf names k of None \<Rightarrow> True | Some f \<Rightarrow> ok f j) kvs"

fun context_json :: "world \<Rightarrow> json \<Rightarrow> bool" where
  "context_json w JNull = True"
| "context_json w (JObject kvs) =
     members_ok (equalFold w) context_fields (\<lambda>f j. string_json j) kvs"
| "context_json w j = False"

definition lease_field_json :: "world \<Rightarrow> string \<Rightarrow> json \<Rightarrow> bool" where
  "lease_field_json w f j =
     (if f = ''floatingLeaseId'' then int_json w j
      else if f = ''token'' then UUID_json w j
      else if f = ''createdTimeUtc'' then timestamp_json w j
      else if f = ''lastRenewalTimeUtc'' then timestamp_json w j
      else if f = ''isRevoked'' then bool_json j
      else if f = ''clientEntitlementContext'' then context_json w j
      else if f = ''entitlementGroupIds'' then strings_json j
      else True)"

fun lease_json :: "world \<Rightarrow> json \<Rightarrow> bool" where
  "lease_json w (JObject kvs) =
     members_ok (equalFold w) lease_fields (lease_field_json w) kvs"
| "lease_json w j = False"

section \<open>An example world\<close>

text \<open>
  A world for running the definitions: the upstream answers \<open>r\<close> at the lease URL of
  the default base address, one timestamp, one UUID and one integer literal parse, and
  keys match field names exactly.
\<close>

definition example_world :: "error + Response \<Rightarrow> world" where
  "example_world r =
     \<lparr>url_Parse = Inr,
      URL_Parse = (\<lambda>base ref. Inr (base @ ref)),
      http_Get = (\<lambda>u. if u = ''http://localhost:8080/v1/admin/lease'' then r
                       else Inl (LibError ''connection refused'')),
      time_Parse = (\<lambda>layout s. if layout = TimeUTCFormat \<and> s = ''2020-01-02T03:04:05Z''
                                then Inr 63713531045 else Inl (LibError ''cannot parse'')),
      uuid_ParseBytes = (\<lambda>s. if s = ''00000000-0000-0000-0000-00000000002a'' then Inr 42
                              else Inl (LibError ''invalid UUID'')),
      strconv_ParseInt = (\<lambda>s. if s = ''7'' then Some 7 else None),
      equalFold = (\<lambda>a b. False)\<rparr>"

definition example_exporter :: ULSExporter where
  "example_exporter = \<lparr>BaseURL = ''http://localhost:8080''\<rparr>"

definition example_lease :: json where
  "example_lease =
     JObject
       [(''floatingLeaseId'', JNumber ''7''),
        (''token'', JString ''00000000-0000-0000-0000-00000000002a''),
        (''createdTimeUtc'', JString ''2020-01-02T03:04:05Z''),
        (''lastRenewalTimeUtc'', JString ''2020-01-02T03:04:05Z''),
        (''isRevoked'', JBool False),
        (''clientEntitlementContext'', JObject [(''EnvironmentUser'', JString ''ann'')]),
        (''entitlementGroupIds'', JArray [JString ''g1'', JString ''g2''])]"

definition ok_response :: "json \<Rightarrow> error + Response" where
  "ok_response j = Inr \<lparr>StatusCode = 200, Status = ''200 OK'', Body = Inr (Some j)\<rparr>"

section \<open>Timestamps left at the zero value\<close>

text \<open>A lease whose two timestamps are the zero time, as in a fresh \<open>ULSLease\<close>.\<close>

definition untimed :: "ULSLease \<Rightarrow> bool" where
  "untimed l \<longleftrightarrow> CreatedTimeUTC l = TimeUTC 0 \<and> LastRenewalTimeUTC l = TimeUTC 0"

section \<open>Flags and defaults\<close>

lemma given_Nil: "given [] name = None"
  by (simp add: given_def)

lemma given_Cons:
  "given ((n, v) # args) name =
     (case given args name of Some x \<Rightarrow> Some x | None \<Rightarrow> if n = name then Some v else None)"
  by (simp add: given_def map_add_def split: option.splits)

lemma flag_Parse_fields:
  "flag_Parse args app = Some app' \<Longrightarrow>
     Listen app' = (case given args ''listen'' of Some v \<Rightarrow> v | None \<Rightarrow> Listen app) \<and>
     Path app' = (case given args ''path'' of Some v \<Rightarrow> v | None \<Rightarrow> Path app) \<and>
     URI app' = (case given args ''uri'' of Some v \<Rightarrow> v | None \<Rightarrow> URI app)"
proof (induction args arbitrary: app)
  case Nil
  then show ?case by (simp add: given_Nil)
next
  case (Cons a args)
  obtain n v where a: "a = (n, v)" by (cases a)
  show ?case
  proof (cases "n = ''listen''")
    case True
    with Cons.prems a have "flag_Parse args (app\<lparr>Listen := v\<rparr>) = Some app'" by simp
    from Cons.IH [OF this] True a show ?thesis
      by (simp add: given_Cons split: option.splits)
  next
    case nl: False
    show ?thesis
    proof (cases "n = ''path''")
      case True
      with Cons.prems a have "flag_Parse args (app\<lparr>Path := v\<rparr>) = Some app'" by simp
      from Cons.IH [OF this] True a show ?thesis
        by (simp add: given_Cons split: option.splits)
    next
      case np: False
      show ?thesis
      proof (cases "n = ''uri''")
        case True
        with Cons.prems a have "flag_Parse args (app\<lparr>URI := v\<rparr>) = Some app'" by simp
        from Cons.IH [OF this] True a show ?thesis
          by (simp add: given_Cons split: option.splits)
      next
        case False
        with nl np Cons.prems a show ?thesis by simp
      qed
    qed
  qed
qed

section \<open>Properties of the model\<close>

subsection \<open>Descriptors and the two branches of Collect\<close>


lemma up_eq:
  "up = \<lparr>fqName = ''uls_up'', helpText = ''ULS is up and running'', variableLabels = [],
          constLabels = [], descErr = None\<rparr>"
  by (simp add: up_def NewDesc_def BuildFQName_def namespace_def IsValidMetricName_def
      name_start_def)

lemma lease_eq:
  "lease = \<lparr>fqName = ''uls_leases'', helpText = ''Number of active ULS leases'',
             variableLabels = [], constLabels = [], descErr = None\<rparr>"
  by (simp add: lease_def NewDesc_def BuildFQName_def namespace_def IsValidMetricName_def
      name_start_def)

lemma NewConstMetric_up:
  "NewConstMetric up vt v [] = Inr \<lparr>metricDesc = up, valueType = vt, metricValue = v, labelValues = []\<rparr>"
  by (simp add: NewConstMetric_def up_eq)

lemma NewConstMetric_lease:
  "NewConstMetric lease vt v [] = Inr \<lparr>metricDesc = lease, valueType = vt, metricValue = v, labelValues = []\<rparr>"
  by (simp add: NewConstMetric_def lease_eq)

lemma Collect_failure:
  "GetLeases w e = (ls, Some err) \<Longrightarrow>
     Collect w e =
       \<lparr>sent = [\<lparr>metricDesc = up, valueType = GaugeValue, metricValue = 0, labelValues = []\<rparr>],
        logged = [err], panicked = None\<rparr>"
  by (simp add: Collect_def NewConstMetric_up)

lemma Collect_success:
  "GetLeases w e = (ls, None) \<Longrightarrow>
     Collect w e =
       \<lparr>sent = [\<lparr>metricDesc = up, valueType = GaugeValue, metricValue = 1, labelValues = []\<rparr>,
                \<lparr>metricDesc = lease, valueType = GaugeValue, metricValue = real (len ls),
                 labelValues = []\<rparr>],
        logged = [], panicked = None\<rparr>"
  by (simp add: Collect_def NewConstMetric_up NewConstMetric_lease)

lemma GetLeases_nil_on_error: "GetLeases w e = (ls, Some err) \<Longrightarrow> ls = None"
  by (auto simp: GetLeases_def split: sum.splits if_splits prod.splits option.splits)

lemma GetLeases_200:
  assumes "URL_Parse w (BaseURL e) ''/v1/admin/lease'' = Inr u"
    and "http_Get w (URL_String u) = Inr res"
    and "StatusCode res = 200"
    and "Body res = Inr b"
  shows "GetLeases w e =
           (case json_Unmarshal (decode_Leases w) b None of
              (leases, Some err) \<Rightarrow> (None, Some err)
            | (leases, None) \<Rightarrow> (leases, None))"
  using assms by (simp add: GetLeases_def)

subsection \<open>Decoders on well-formed values\<close>

lemma decode_string_ok: "string_json j \<Longrightarrow> snd (decode_string j v sv) = (sv, None)"
  by (cases j) simp_all

lemma decode_bool_ok: "bool_json j \<Longrightarrow> snd (decode_bool j v sv) = (sv, None)"
  by (cases j) simp_all

lemma decode_int_ok: "int_json w j \<Longrightarrow> snd (decode_int w j v sv) = (sv, None)"
  by (cases j) auto

lemma decode_UUID_ok: "UUID_json w j \<Longrightarrow> snd (decode_UUID w j v sv) = (sv, None)"
  by (cases j) (auto split: sum.splits)

lemma decode_elems_ok:
  assumes "\<And>j v sv. j \<in> set js \<Longrightarrow> snd (dec j v sv) = (sv, None)"
  shows "\<exists>xs. decode_elems dec z js cur acc sv = (acc @ xs, sv, None) \<and> length xs = length js"
  using assms
proof (induction js arbitrary: cur acc sv)
  case Nil
  then show ?case by simp
next
  case (Cons j js)
  let ?c = "case cur of [] \<Rightarrow> z | c # cs \<Rightarrow> c"
  obtain x where x: "dec j ?c sv = (x, sv, None)"
    using Cons.prems [of j ?c sv] by (cases "dec j ?c sv") simp
  have "\<exists>xs. decode_elems dec z js (tl cur) (acc @ [x]) sv = ((acc @ [x]) @ xs, sv, None)
          \<and> length xs = length js"
    by (rule Cons.IH) (simp add: Cons.prems)
  then obtain xs where
    "decode_elems dec z js (tl cur) (acc @ [x]) sv = ((acc @ [x]) @ xs, sv, None)"
    "length xs = length js" by blast
  with x have "decode_elems dec z (j # js) cur acc sv = (acc @ (x # xs), sv, None)
      \<and> length (x # xs) = length (j # js)" by simp
  then show ?case by blast
qed

lemma decode_object_ok:
  assumes "members_ok eqf names ok kvs"
    and "\<And>f j v sv. ok f j \<Longrightarrow> snd (field_dec f j v sv) = (sv, None)"
  shows "snd (decode_object eqf names field_dec kvs v sv) = (sv, None)"
  using assms(1)
proof (induction kvs arbitrary: v)
  case Nil
  then show ?case by simp
next
  case (Cons kv kvs)
  obtain k j where kv: "kv = (k, j)" by (cases kv)
  from Cons.prems have rest: "members_ok eqf names ok kvs"
    by (simp add: members_ok_def)
  show ?case
  proof (cases "find_field eqf names k")
    case None
    with kv Cons.IH [OF rest] show ?thesis by simp
  next
    case (Some f)
    with Cons.prems kv have "ok f j" by (simp add: members_ok_def)
    then have "snd (field_dec f j v sv) = (sv, None)" by (rule assms(2))
    then obtain v' where "field_dec f j v sv = (v', sv, None)"
      by (cases "field_dec f j v sv") simp
    with kv Some Cons.IH [OF rest, of v'] show ?thesis by simp
  qed
qed

lemma snd_store: "snd (store upd r) = snd r"
  by (cases r) (simp add: store_def)

lemma fst_store: "fst (store upd r) = upd (fst r)"
  by (cases r) (simp add: store_def)

lemma decode_slice_strings_ok:
  "strings_json j \<Longrightarrow> snd (decode_slice ty decode_string z j v sv) = (sv, None)"
proof (cases j)
  case (JArray js)
  assume "strings_json j"
  with JArray have "\<And>j' v sv. j' \<in> set js \<Longrightarrow> snd (decode_string j' v sv) = (sv, None)"
    by (simp add: list_all_iff decode_string_ok)
  from decode_elems_ok [of js decode_string, OF this]
  obtain xs where "decode_elems decode_string z js (case v of None \<Rightarrow> [] | Some xs \<Rightarrow> xs) [] sv
      = ([] @ xs, sv, None)" by blast
  with JArray show ?thesis by (simp add: decode_slice_def)
qed (simp_all add: decode_slice_def)

lemma decode_context_field_ok:
  "string_json j \<Longrightarrow> snd (decode_context_field f j c sv) = (sv, None)"
  by (simp add: decode_context_field_def snd_store decode_string_ok)

lemma decode_Context_ok:
  "context_json w j \<Longrightarrow> snd (decode_Context w j c sv) = (sv, None)"
proof (cases j)
  case (JObject kvs)
  assume "context_json w j"
  with JObject have "members_ok (equalFold w) context_fields (\<lambda>f j. string_json j) kvs" by simp
  from decode_object_ok [OF this, of decode_context_field] JObject show ?thesis
    by (simp add: decode_Context_def decode_struct_def decode_context_field_ok)
qed (simp_all add: decode_Context_def decode_struct_def)


subsection \<open>The timestamp decoder\<close>

lemma UnmarshalJSON_wellformed:
  "time_Parse w TimeUTCFormat s = Inr parsed \<Longrightarrow>
     TimeUTC_UnmarshalJSON w t (Some (JString s)) = (TimeUTC parsed, None)"
  by (simp add: TimeUTC_UnmarshalJSON_def json_Unmarshal_def)

lemma decode_TimeUTC_keeps: "fst (decode_TimeUTC w j t sv) = t"
  by (simp add: decode_TimeUTC_def value_receiver_call_def)

lemma decode_TimeUTC_saved: "fst (snd (decode_TimeUTC w j t sv)) = sv"
  by (simp add: decode_TimeUTC_def value_receiver_call_def)

lemma decode_TimeUTC_ok:
  "timestamp_json w j \<Longrightarrow> decode_TimeUTC w j t sv = (t, sv, None)"
  by (cases j)
    (auto simp: decode_TimeUTC_def value_receiver_call_def TimeUTC_UnmarshalJSON_def
      json_Unmarshal_def split: sum.splits)

lemma decode_TimeUTC_bad:
  assumes "\<not> timestamp_json w j"
    and "j = JNull \<longrightarrow> (\<exists>e0. time_Parse w TimeUTCFormat [] = Inl e0)"
  shows "snd (snd (decode_TimeUTC w j t sv)) \<noteq> None"
  using assms
  by (cases j)
    (auto simp: decode_TimeUTC_def value_receiver_call_def TimeUTC_UnmarshalJSON_def
      json_Unmarshal_def mismatch_def saveError_def split: sum.splits)

subsection \<open>Leases on well-formed records\<close>

lemma decode_lease_field_ok:
  "lease_field_json w f j \<Longrightarrow> snd (decode_lease_field w f j l sv) = (sv, None)"
  by (simp add: decode_lease_field_def lease_field_json_def snd_store decode_int_ok
      decode_UUID_ok decode_TimeUTC_ok decode_bool_ok decode_Context_ok
      decode_slice_strings_ok split: if_splits)

lemma decode_Lease_ok:
  "lease_json w j \<Longrightarrow> snd (decode_Lease w j l sv) = (sv, None)"
proof (cases j)
  case (JObject kvs)
  assume "lease_json w j"
  with JObject have "members_ok (equalFold w) lease_fields (lease_field_json w) kvs" by simp
  from decode_object_ok [OF this, of "decode_lease_field w"] JObject show ?thesis
    by (simp add: decode_Lease_def decode_struct_def decode_lease_field_ok)
qed simp_all

lemma Unmarshal_leases_ok:
  assumes "list_all (lease_json w) recs"
  shows "\<exists>ls. json_Unmarshal (decode_Leases w) (Some (JArray recs)) None = (Some ls, None)
           \<and> length ls = length recs"
proof -
  from assms have "\<And>j v sv. j \<in> set recs \<Longrightarrow> snd (decode_Lease w j v sv) = (sv, None)"
    by (simp add: list_all_iff decode_Lease_ok)
  from decode_elems_ok [of recs "decode_Lease w", OF this]
  obtain xs where "decode_elems (decode_Lease w) zero_Lease recs [] [] None = ([] @ xs, None, None)"
    and "length xs = length recs" by blast
  then show ?thesis
    by (simp add: json_Unmarshal_def decode_Leases_def decode_slice_def)
qed

subsection \<open>Stopping errors\<close>

lemma decode_elems_abort:
  assumes "j \<in> set js" and "\<And>v sv. snd (snd (dec j v sv)) \<noteq> None"
  shows "snd (snd (decode_elems dec z js cur acc sv)) \<noteq> None"
  using assms(1)
proof (induction js arbitrary: cur acc sv)
  case Nil
  then show ?case by simp
next
  case (Cons a js)
  let ?c = "case cur of [] \<Rightarrow> z | c # cs \<Rightarrow> c"
  obtain x sv' r where r: "dec a ?c sv = (x, sv', r)" by (cases "dec a ?c sv")
  show ?case
  proof (cases r)
    case None
    with r assms(2) [of ?c sv] have "a \<noteq> j" by auto
    with Cons.prems have "j \<in> set js" by simp
    from Cons.IH [OF this] r None show ?thesis by simp
  next
    case (Some err)
    with r show ?thesis by simp
  qed
qed

lemma decode_object_abort:
  assumes "(k, j) \<in> set kvs" and "find_field eqf names k = Some f"
    and "\<And>v sv. snd (snd (field_dec f j v sv)) \<noteq> None"
  shows "snd (snd (decode_object eqf names field_dec kvs v sv)) \<noteq> None"
  using assms(1)
proof (induction kvs arbitrary: v sv)
  case Nil
  then show ?case by simp
next
  case (Cons a kvs)
  obtain k' j' where a: "a = (k', j')" by (cases a)
  show ?case
  proof (cases "find_field eqf names k'")
    case None
    with assms(2) have "k' \<noteq> k" by auto
    with Cons.prems a have "(k, j) \<in> set kvs" by simp
    from Cons.IH [OF this] a None show ?thesis by simp
  next
    case (Some f')
    obtain x sv' r where r: "field_dec f' j' v sv = (x, sv', r)"
      by (cases "field_dec f' j' v sv")
    show ?thesis
    proof (cases r)
      case None
      have "(k', j') \<noteq> (k, j)"
      proof
        assume "(k', j') = (k, j)"
        with Some assms(2) have "f' = f" "j' = j" by simp_all
        with r None assms(3) [of v sv] show False by simp
      qed
      with Cons.prems a have "(k, j) \<in> set kvs" by auto
      from Cons.IH [OF this] a Some r None show ?thesis by simp
    next
      case (Some err)
      with a \<open>find_field eqf names k' = Some f'\<close> r show ?thesis by simp
    qed
  qed
qed

lemma find_timestamp_field:
  "k = ''createdTimeUtc'' \<or> k = ''lastRenewalTimeUtc'' \<Longrightarrow>
     find_field eqf lease_fields k = Some k"
  by (auto simp: find_field_def lease_fields_def)

lemma decode_lease_field_bad_time:
  assumes "k = ''createdTimeUtc'' \<or> k = ''lastRenewalTimeUtc''"
    and "\<not> timestamp_json w j"
    and "j = JNull \<longrightarrow> (\<exists>e0. time_Parse w TimeUTCFormat [] = Inl e0)"
  shows "snd (snd (decode_lease_field w k j l sv)) \<noteq> None"
  using assms(1) decode_TimeUTC_bad [OF assms(2,3)]
  by (auto simp: decode_lease_field_def snd_store)

lemma Unmarshal_leases_bad_time:
  assumes "JObject kvs \<in> set recs" and "(k, j) \<in> set kvs"
    and "k = ''createdTimeUtc'' \<or> k = ''lastRenewalTimeUtc''"
    and "\<not> timestamp_json w j"
    and "j = JNull \<longrightarrow> (\<exists>e0. time_Parse w TimeUTCFormat [] = Inl e0)"
  shows "snd (json_Unmarshal (decode_Leases w) (Some (JArray recs)) None) \<noteq> None"
proof -
  have one: "snd (snd (decode_Lease w (JObject kvs) l sv)) \<noteq> None" for l sv
    unfolding decode_Lease_def decode_struct_def
    using decode_object_abort [OF assms(2) find_timestamp_field [OF assms(3)],
        of "decode_lease_field w"]
      decode_lease_field_bad_time [OF assms(3,4,5)]
    by simp
  have "snd (snd (decode_elems (decode_Lease w) zero_Lease recs [] [] None)) \<noteq> None"
    by (rule decode_elems_abort [OF assms(1)]) (rule one)
  then show ?thesis
    by (auto simp: json_Unmarshal_def decode_Leases_def decode_slice_def split: prod.splits option.splits)
qed

subsection \<open>The timestamps of decoded leases\<close>

lemma decode_lease_field_times:
  "CreatedTimeUTC (fst (decode_lease_field w f j l sv)) = CreatedTimeUTC l \<and>
   LastRenewalTimeUTC (fst (decode_lease_field w f j l sv)) = LastRenewalTimeUTC l"
  by (simp add: decode_lease_field_def fst_store decode_TimeUTC_keeps)

lemma decode_object_inv:
  assumes "\<And>f j v sv. P v \<Longrightarrow> P (fst (field_dec f j v sv))" and "P v"
  shows "P (fst (decode_object eqf names field_dec kvs v sv))"
  using assms(2)
proof (induction kvs arbitrary: v sv)
  case Nil
  then show ?case by simp
next
  case (Cons a kvs)
  obtain k j where a: "a = (k, j)" by (cases a)
  show ?case
  proof (cases "find_field eqf names k")
    case None
    with a Cons.IH [OF Cons.prems] show ?thesis by simp
  next
    case (Some f)
    obtain x sv' r where r: "field_dec f j v sv = (x, sv', r)" by (cases "field_dec f j v sv")
    from assms(1) [OF Cons.prems, of f j sv] r have x: "P x" by simp
    show ?thesis
    proof (cases r)
      case None
      with a Some r Cons.IH [OF x] show ?thesis by simp
    next
      case (Some err)
      with a \<open>find_field eqf names k = Some f\<close> r x show ?thesis by simp
    qed
  qed
qed

lemma decode_elems_inv:
  assumes "\<And>j v sv. P v \<Longrightarrow> P (fst (dec j v sv))" and "P z"
    and "\<forall>x\<in>set cur. P x" and "\<forall>x\<in>set acc. P x"
  shows "\<forall>x\<in>set (fst (decode_elems dec z js cur acc sv)). P x"
  using assms(3,4)
proof (induction js arbitrary: cur acc sv)
  case Nil
  then show ?case by simp
next
  case (Cons j js)
  let ?c = "case cur of [] \<Rightarrow> z | c # cs \<Rightarrow> c"
  have c: "P ?c" using Cons.prems(1) assms(2) by (cases cur) simp_all
  have tl: "\<forall>x\<in>set (tl cur). P x" using Cons.prems(1) by (cases cur) simp_all
  obtain x sv' r where r: "dec j ?c sv = (x, sv', r)" by (cases "dec j ?c sv")
  from assms(1) [OF c, of j sv] r have x: "P x" by simp
  show ?case
  proof (cases r)
    case None
    have "\<forall>y\<in>set (acc @ [x]). P y" using Cons.prems(2) x by simp
    from Cons.IH [OF tl this] r None show ?thesis by simp
  next
    case (Some err)
    with r x tl Cons.prems(2) show ?thesis by auto
  qed
qed

lemma decode_Lease_untimed: "untimed l \<Longrightarrow> untimed (fst (decode_Lease w j l sv))"
proof (cases j)
  case (JObject kvs)
  assume l: "untimed l"
  have "untimed (fst (decode_object (equalFold w) lease_fields (decode_lease_field w) kvs l sv))"
    by (rule decode_object_inv [where P = untimed, OF _ l])
      (simp add: untimed_def decode_lease_field_times)
  with JObject show ?thesis by (simp add: decode_Lease_def decode_struct_def)
qed (simp_all add: decode_Lease_def decode_struct_def mismatch_def)

lemma Unmarshal_leases_untimed:
  assumes "json_Unmarshal (decode_Leases w) b None = (Some ls, r)"
  shows "\<forall>l\<in>set ls. untimed l"
proof (cases b)
  case None
  with assms show ?thesis by (simp add: json_Unmarshal_def)
next
  case (Some j)
  show ?thesis
  proof (cases j)
    case (JArray js)
    have inv: "\<forall>l\<in>set (fst (decode_elems (decode_Lease w) zero_Lease js [] [] None)). untimed l"
    proof (rule decode_elems_inv [where P = untimed])
      show "untimed zero_Lease" by (simp add: untimed_def zero_Lease_def)
    qed (simp_all add: decode_Lease_untimed)
    from assms Some JArray
    have "ls = fst (decode_elems (decode_Lease w) zero_Lease js [] [] None)"
      by (auto simp: json_Unmarshal_def decode_Leases_def decode_slice_def
          split: prod.splits option.splits)
    with inv show ?thesis by simp
  qed (use assms Some in \<open>auto simp: json_Unmarshal_def decode_Leases_def decode_slice_def
        mismatch_def split: prod.splits option.splits\<close>)
qed

subsection \<open>Every failure of the fetch is an error without leases\<close>

lemma fetch_failure:
  assumes "(\<exists>err. URL_Parse w (BaseURL e) ''/v1/admin/lease'' = Inl err)
     \<or> (\<exists>u err. URL_Parse w (BaseURL e) ''/v1/admin/lease'' = Inr u
            \<and> http_Get w (URL_String u) = Inl err)
     \<or> (\<exists>u res. URL_Parse w (BaseURL e) ''/v1/admin/lease'' = Inr u
            \<and> http_Get w (URL_String u) = Inr res
            \<and> (StatusCode res \<noteq> 200
                \<or> (\<exists>err. Body res = Inl err)
                \<or> (\<exists>b ls err. Body res = Inr b
                      \<and> json_Unmarshal (decode_Leases w) b None = (ls, Some err))))"
  shows "\<exists>err. GetLeases w e = (None, Some err)"
  using assms by (auto simp: GetLeases_def)

section \<open>The claims\<close>

text \<open>
  Claim C1. When the upstream answers with status 200 and a body that is a JSON array
  of \<open>N\<close> well-formed lease records, \<open>N\<close> being any number including zero, \<open>GetLeases\<close>
  returns \<open>N\<close> leases without error and \<open>Collect\<close> sends the gauge \<open>up\<close> with value 1
  followed by the gauge \<open>leases\<close> with value \<open>N\<close>, logs nothing and does not panic.
\<close>

theorem C1_success_emits_up_1_and_count:
  assumes "URL_Parse w (BaseURL e) ''/v1/admin/lease'' = Inr u"
    and "http_Get w (URL_String u) = Inr res"
    and "StatusCode res = 200"
    and "Body res = Inr (Some (JArray recs))"
    and "list_all (lease_json w) recs"
  shows "(\<exists>ls. GetLeases w e = (Some ls, None) \<and> length ls = length recs) \<and>
         Collect w e =
           \<lparr>sent = [\<lparr>metricDesc = up, valueType = GaugeValue, metricValue = 1,
                     labelValues = []\<rparr>,
                    \<lparr>metricDesc = lease, valueType = GaugeValue,
                     metricValue = real (length recs), labelValues = []\<rparr>],
            logged = [], panicked = None\<rparr>"
proof -
  from Unmarshal_leases_ok [OF assms(5)] obtain ls where
    ls: "json_Unmarshal (decode_Leases w) (Some (JArray recs)) None = (Some ls, None)"
    and n: "length ls = length recs" by blast
  from GetLeases_200 [OF assms(1-4)] ls have g: "GetLeases w e = (Some ls, None)" by simp
  from Collect_success [OF g] g n show ?thesis by (simp add: len_def)
qed

theorem C1_witness:
  "list_all (lease_json (example_world (ok_response (JArray [example_lease, example_lease]))))
     [example_lease, example_lease] \<and>
   Collect (example_world (ok_response (JArray [example_lease, example_lease]))) example_exporter =
     \<lparr>sent = [\<lparr>metricDesc = up, valueType = GaugeValue, metricValue = 1, labelValues = []\<rparr>,
              \<lparr>metricDesc = lease, valueType = GaugeValue, metricValue = 2, labelValues = []\<rparr>],
      logged = [], panicked = None\<rparr>"
proof -
  let ?recs = "[example_lease, example_lease]"
  let ?w = "example_world (ok_response (JArray ?recs))"
  let ?res = "\<lparr>StatusCode = 200, Status = ''200 OK'', Body = Inr (Some (JArray ?recs))\<rparr>"
  have 1: "URL_Parse ?w (BaseURL example_exporter) ''/v1/admin/lease''
             = Inr ''http://localhost:8080/v1/admin/lease''"
    by (simp add: example_world_def example_exporter_def)
  have 2: "http_Get ?w (URL_String ''http://localhost:8080/v1/admin/lease'') = Inr ?res"
    by (simp add: example_world_def URL_String_def ok_response_def)
  have 3: "StatusCode ?res = 200" by simp
  have 4: "Body ?res = Inr (Some (JArray ?recs))" by simp
  have 5: "list_all (lease_json ?w) ?recs"
    by (simp add: example_lease_def example_world_def members_ok_def find_field_def
        lease_fields_def context_fields_def lease_field_json_def TimeUTCFormat_def)
  from C1_success_emits_up_1_and_count [OF 1 2 3 4 5] 5 show ?thesis by simp
qed

text \<open>
  Claim C2. On every failure of the fetch (the lease URL does not resolve, the
  transport fails, the status is not 200, the body cannot be read, the body does not
  decode) \<open>Collect\<close> sends exactly one metric, the gauge \<open>up\<close> with value 0, and logs
  the error; no sample of \<open>leases\<close> is sent, and what is sent differs from what any
  successful cycle sends, a cycle with zero leases included.
\<close>

theorem C2_failure_emits_only_up_0:
  assumes "(\<exists>err. URL_Parse w (BaseURL e) ''/v1/admin/lease'' = Inl err)
     \<or> (\<exists>u err. URL_Parse w (BaseURL e) ''/v1/admin/lease'' = Inr u
            \<and> http_Get w (URL_String u) = Inl err)
     \<or> (\<exists>u res. URL_Parse w (BaseURL e) ''/v1/admin/lease'' = Inr u
            \<and> http_Get w (URL_String u) = Inr res
            \<and> (StatusCode res \<noteq> 200
                \<or> (\<exists>err. Body res = Inl err)
                \<or> (\<exists>b ls err. Body res = Inr b
                      \<and> json_Unmarshal (decode_Leases w) b None = (ls, Some err))))"
  shows "(\<exists>err. Collect w e =
            \<lparr>sent = [\<lparr>metricDesc = up, valueType = GaugeValue, metricValue = 0,
                      labelValues = []\<rparr>],
             logged = [err], panicked = None\<rparr>) \<and>
         (\<forall>m\<in>set (sent (Collect w e)). metricDesc m \<noteq> lease) \<and>
         (\<forall>w' e' ls. GetLeases w' e' = (ls, None) \<longrightarrow> sent (Collect w' e') \<noteq> sent (Collect w e))"
proof -
  from fetch_failure [OF assms] obtain err where g: "GetLeases w e = (None, Some err)" ..
  note c = Collect_failure [OF g]
  have "up \<noteq> lease" by (simp add: up_eq lease_eq)
  with c have no_lease: "\<forall>m\<in>set (sent (Collect w e)). metricDesc m \<noteq> lease" by simp
  have "sent (Collect w' e') \<noteq> sent (Collect w e)" if "GetLeases w' e' = (ls, None)" for w' e' ls
    using Collect_success [OF that] c by simp
  with c no_lease show ?thesis by blast
qed

theorem C2_witness:
  "Collect (example_world (Inr \<lparr>StatusCode = 503, Status = ''503 Service Unavailable'',
                               Body = Inr (Some (JArray []))\<rparr>)) example_exporter =
     \<lparr>sent = [\<lparr>metricDesc = up, valueType = GaugeValue, metricValue = 0, labelValues = []\<rparr>],
      logged = [ErrorString ''503 503 Service Unavailable''], panicked = None\<rparr> \<and>
   sent (Collect (example_world (ok_response (JArray []))) example_exporter) =
     [\<lparr>metricDesc = up, valueType = GaugeValue, metricValue = 1, labelValues = []\<rparr>,
      \<lparr>metricDesc = lease, valueType = GaugeValue, metricValue = 0, labelValues = []\<rparr>] \<and>
   sent (Collect (example_world (ok_response (JArray []))) example_exporter) \<noteq>
   sent (Collect (example_world (Inr \<lparr>StatusCode = 503, Status = ''503 Service Unavailable'',
                                     Body = Inr (Some (JArray []))\<rparr>)) example_exporter)"
proof -
  let ?res = "\<lparr>StatusCode = 503, Status = ''503 Service Unavailable'',
               Body = Inr (Some (JArray []))\<rparr>"
  let ?w = "example_world (Inr ?res)"
  let ?z = "example_world (ok_response (JArray []))"
  have fail: "\<exists>u res. URL_Parse ?w (BaseURL example_exporter) ''/v1/admin/lease'' = Inr u
            \<and> http_Get ?w (URL_String u) = Inr res
            \<and> (StatusCode res \<noteq> 200
                \<or> (\<exists>err. Body res = Inl err)
                \<or> (\<exists>b ls err. Body res = Inr b
                      \<and> json_Unmarshal (decode_Leases ?w) b None = (ls, Some err)))"
    by (simp add: example_world_def example_exporter_def URL_String_def)
  have g: "GetLeases ?w example_exporter = (None, Some (ErrorString ''503 503 Service Unavailable''))"
    by (simp add: GetLeases_def example_world_def example_exporter_def URL_String_def
        fmt_Errorf_d_s_def itoa_def itoa_nat.simps)
  have g0: "GetLeases ?z example_exporter = (Some [], None)"
    by (simp add: GetLeases_def example_world_def example_exporter_def URL_String_def
        ok_response_def json_Unmarshal_def decode_Leases_def decode_slice_def)
  from C2_failure_emits_only_up_0 [of ?w example_exporter] fail
  have "\<exists>err. Collect ?w example_exporter =
            \<lparr>sent = [\<lparr>metricDesc = up, valueType = GaugeValue, metricValue = 0,
                      labelValues = []\<rparr>],
             logged = [err], panicked = None\<rparr>"
    and d: "\<forall>w' e' ls. GetLeases w' e' = (ls, None) \<longrightarrow>
              sent (Collect w' e') \<noteq> sent (Collect ?w example_exporter)"
    by blast+
  then obtain err where c: "Collect ?w example_exporter =
            \<lparr>sent = [\<lparr>metricDesc = up, valueType = GaugeValue, metricValue = 0,
                      labelValues = []\<rparr>],
             logged = [err], panicked = None\<rparr>" by blast
  have "err = ErrorString ''503 503 Service Unavailable''"
    using c g by (simp add: Collect_def NewConstMetric_up)
  moreover from d g0 have "sent (Collect ?z example_exporter) \<noteq> sent (Collect ?w example_exporter)"
    by blast
  moreover have "sent (Collect ?z example_exporter) =
     [\<lparr>metricDesc = up, valueType = GaugeValue, metricValue = 1, labelValues = []\<rparr>,
      \<lparr>metricDesc = lease, valueType = GaugeValue, metricValue = 0, labelValues = []\<rparr>]"
    using g0 by (simp add: Collect_def NewConstMetric_up NewConstMetric_lease len_def)
  ultimately show ?thesis using c by simp
qed

text \<open>
  Claim C3. When the upstream answers with a status other than 200, \<open>GetLeases\<close>
  returns no leases and the error whose text is the status code in decimal, a space,
  and the status text of the response.
\<close>

theorem C3_status_error_message:
  assumes "URL_Parse w (BaseURL e) ''/v1/admin/lease'' = Inr u"
    and "http_Get w (URL_String u) = Inr res"
    and "StatusCode res \<noteq> 200"
  shows "GetLeases w e = (None, Some (ErrorString (itoa (StatusCode res) @ '' '' @ Status res)))"
  using assms by (simp add: GetLeases_def fmt_Errorf_d_s_def)

theorem C3_witness:
  "GetLeases (example_world (Inr \<lparr>StatusCode = 503, Status = ''503 Service Unavailable'',
                                 Body = Inl (LibError ''unexpected EOF'')\<rparr>)) example_exporter =
     (None, Some (ErrorString ''503 503 Service Unavailable''))"
proof -
  let ?res = "\<lparr>StatusCode = 503, Status = ''503 Service Unavailable'',
               Body = Inl (LibError ''unexpected EOF'')\<rparr>"
  let ?w = "example_world (Inr ?res)"
  have 1: "URL_Parse ?w (BaseURL example_exporter) ''/v1/admin/lease''
             = Inr ''http://localhost:8080/v1/admin/lease''"
    by (simp add: example_world_def example_exporter_def)
  have 2: "http_Get ?w (URL_String ''http://localhost:8080/v1/admin/lease'') = Inr ?res"
    by (simp add: example_world_def URL_String_def)
  have 3: "StatusCode ?res \<noteq> 200" by simp
  have "itoa 503 = ''503''" by (simp add: itoa_def itoa_nat.simps)
  with C3_status_error_message [OF 1 2 3] show ?thesis by simp
qed

text \<open>
  Claim C4. \<open>GetLeases\<close> is all or nothing. Under each of the five failure conditions
  it returns an error together with the \<open>nil\<close> slice, and whenever it returns an error
  the slice is \<open>nil\<close>, also when \<open>json.Unmarshal\<close> had filled part of the slice before
  it failed.
\<close>

theorem C4_error_comes_with_nil:
  assumes "(\<exists>err. URL_Parse w (BaseURL e) ''/v1/admin/lease'' = Inl err)
     \<or> (\<exists>u err. URL_Parse w (BaseURL e) ''/v1/admin/lease'' = Inr u
            \<and> http_Get w (URL_String u) = Inl err)
     \<or> (\<exists>u res. URL_Parse w (BaseURL e) ''/v1/admin/lease'' = Inr u
            \<and> http_Get w (URL_String u) = Inr res
            \<and> (StatusCode res \<noteq> 200
                \<or> (\<exists>err. Body res = Inl err)
                \<or> (\<exists>b ls err. Body res = Inr b
                      \<and> json_Unmarshal (decode_Leases w) b None = (ls, Some err))))"
  shows "(\<exists>err. GetLeases w e = (None, Some err)) \<and>
         (\<forall>w' e' ls err. GetLeases w' e' = (ls, Some err) \<longrightarrow> ls = None)"
  using fetch_failure [OF assms] GetLeases_nil_on_error by blast

theorem C4_witness:
  "fst (json_Unmarshal
          (decode_Leases (example_world (ok_response
             (JArray [example_lease, JObject [(''createdTimeUtc'', JNull)]]))))
          (Some (JArray [example_lease, JObject [(''createdTimeUtc'', JNull)]])) None) \<noteq> None \<and>
   GetLeases (example_world (ok_response
      (JArray [example_lease, JObject [(''createdTimeUtc'', JNull)]]))) example_exporter =
     (None, Some (LibError ''cannot parse''))"
proof -
  let ?j = "JArray [example_lease, JObject [(''createdTimeUtc'', JNull)]]"
  let ?res = "\<lparr>StatusCode = 200, Status = ''200 OK'', Body = Inr (Some ?j)\<rparr>"
  let ?w = "example_world (ok_response ?j)"
  have 1: "URL_Parse ?w (BaseURL example_exporter) ''/v1/admin/lease''
             = Inr ''http://localhost:8080/v1/admin/lease''"
    by (simp add: example_world_def example_exporter_def)
  have 2: "http_Get ?w (URL_String ''http://localhost:8080/v1/admin/lease'') = Inr ?res"
    by (simp add: example_world_def URL_String_def ok_response_def)
  have u: "\<exists>ls. json_Unmarshal (decode_Leases ?w) (Some ?j) None
             = (Some ls, Some (LibError ''cannot parse''))"
    by (simp add: json_Unmarshal_def decode_Leases_def decode_slice_def decode_Lease_def
        decode_struct_def example_lease_def find_field_def lease_fields_def context_fields_def
        decode_lease_field_def decode_context_field_def decode_Context_def store_def
        decode_TimeUTC_def value_receiver_call_def TimeUTC_UnmarshalJSON_def
        example_world_def TimeUTCFormat_def)
  then obtain ls where ls: "json_Unmarshal (decode_Leases ?w) (Some ?j) None
             = (Some ls, Some (LibError ''cannot parse''))" ..
  have fail: "\<exists>u res. URL_Parse ?w (BaseURL example_exporter) ''/v1/admin/lease'' = Inr u
            \<and> http_Get ?w (URL_String u) = Inr res
            \<and> (StatusCode res \<noteq> 200
                \<or> (\<exists>err. Body res = Inl err)
                \<or> (\<exists>b ls err. Body res = Inr b
                      \<and> json_Unmarshal (decode_Leases ?w) b None = (ls, Some err)))"
    using 1 2 ls by fastforce
  from C4_error_comes_with_nil [of ?w example_exporter] fail
  obtain err where g: "GetLeases ?w example_exporter = (None, Some err)" by blast
  from GetLeases_200 [OF 1 2] ls have "GetLeases ?w example_exporter
      = (None, Some (LibError ''cannot parse''))" by simp
  with g ls show ?thesis by simp
qed

text \<open>
  Claim C5. \<open>Describe\<close> sends the same two descriptors whatever the exporter is and
  whatever happened before: the descriptor named \<open>uls_up\<close> and the descriptor named
  \<open>uls_leases\<close>, in this order, both without labels and both free of error. It takes
  nothing from the world, so no outcome of a collection can reach it.
\<close>

theorem C5_Describe_constant:
  "Describe e = [up, lease] \<and> Describe e = Describe e' \<and>
   map fqName (Describe e) = [''uls_up'', ''uls_leases''] \<and>
   map variableLabels (Describe e) = [[], []] \<and>
   map constLabels (Describe e) = [[], []] \<and>
   map descErr (Describe e) = [None, None]"
  by (simp add: Describe_def up_eq lease_eq)

text \<open>
  Claim C6. For a timestamp string \<open>s\<close> that \<open>time.Parse\<close> accepts in the fixed format,
  \<open>TimeUTC.UnmarshalJSON\<close> on the JSON string \<open>s\<close> returns no error: inside the method
  the variable \<open>t\<close> ends as the parsed time, but \<open>t\<close> is the method's copy, and the
  variable the method was called on is unchanged. Hence in every slice of leases that
  \<open>GetLeases\<close> returns, both timestamps of every lease are the zero time.
\<close>

theorem C6_UnmarshalJSON_discards_parsed_time:
  assumes "time_Parse w TimeUTCFormat s = Inr parsed"
  shows "TimeUTC_UnmarshalJSON w recv (Some (JString s)) = (TimeUTC parsed, None) \<and>
         value_receiver_call (\<lambda>t. TimeUTC_UnmarshalJSON w t (Some (JString s))) recv
           = (recv, None) \<and>
         decode_TimeUTC w (JString s) recv sv = (recv, sv, None) \<and>
         (\<forall>e ls r. GetLeases w e = (Some ls, r) \<longrightarrow>
            (\<forall>l\<in>set ls. CreatedTimeUTC l = TimeUTC 0 \<and> LastRenewalTimeUTC l = TimeUTC 0))"
proof -
  note body = UnmarshalJSON_wellformed [OF assms, of recv]
  have call: "value_receiver_call (\<lambda>t. TimeUTC_UnmarshalJSON w t (Some (JString s))) recv
           = (recv, None)"
    by (simp add: value_receiver_call_def UnmarshalJSON_wellformed [OF assms])
  have dec: "decode_TimeUTC w (JString s) recv sv = (recv, sv, None)"
    by (simp add: decode_TimeUTC_def call)
  have "\<forall>l\<in>set ls. CreatedTimeUTC l = TimeUTC 0 \<and> LastRenewalTimeUTC l = TimeUTC 0"
    if g: "GetLeases w e = (Some ls, r)" for e ls r
  proof -
    from g obtain b r' where "json_Unmarshal (decode_Leases w) b None = (Some ls, r')"
      by (auto simp: GetLeases_def split: sum.splits if_splits prod.splits option.splits)
    from Unmarshal_leases_untimed [OF this] show ?thesis by (simp add: untimed_def)
  qed
  with body call dec show ?thesis by blast
qed

theorem C6_witness:
  "time_Parse (example_world (ok_response (JArray [example_lease]))) TimeUTCFormat
     ''2020-01-02T03:04:05Z'' = Inr 63713531045 \<and>
   TimeUTC_UnmarshalJSON (example_world (ok_response (JArray [example_lease]))) (TimeUTC 0)
     (Some (JString ''2020-01-02T03:04:05Z'')) = (TimeUTC 63713531045, None) \<and>
   value_receiver_call
     (\<lambda>t. TimeUTC_UnmarshalJSON (example_world (ok_response (JArray [example_lease]))) t
        (Some (JString ''2020-01-02T03:04:05Z''))) (TimeUTC 0) = (TimeUTC 0, None) \<and>
   (\<exists>l. GetLeases (example_world (ok_response (JArray [example_lease]))) example_exporter
          = (Some [l], None) \<and>
        FloatingLeaseID l = 7 \<and> CreatedTimeUTC l = TimeUTC 0 \<and> LastRenewalTimeUTC l = TimeUTC 0)"
proof -
  let ?w = "example_world (ok_response (JArray [example_lease]))"
  have p: "time_Parse ?w TimeUTCFormat ''2020-01-02T03:04:05Z'' = Inr 63713531045"
    by (simp add: example_world_def)
  note c = C6_UnmarshalJSON_discards_parsed_time [OF p, of "TimeUTC 0" None]
  have "\<exists>l. GetLeases ?w example_exporter = (Some [l], None) \<and> FloatingLeaseID l = 7"
    by (simp add: GetLeases_def URL_String_def ok_response_def example_exporter_def
        json_Unmarshal_def decode_Leases_def decode_slice_def decode_Lease_def
        decode_struct_def example_lease_def find_field_def lease_fields_def context_fields_def
        decode_lease_field_def decode_context_field_def decode_Context_def store_def
        decode_TimeUTC_def value_receiver_call_def TimeUTC_UnmarshalJSON_def
        example_world_def TimeUTCFormat_def zero_Lease_def zero_Context_def)
  then obtain l where g: "GetLeases ?w example_exporter = (Some [l], None)"
    and f: "FloatingLeaseID l = 7" by blast
  from c g have "CreatedTimeUTC l = TimeUTC 0 \<and> LastRenewalTimeUTC l = TimeUTC 0" by fastforce
  with p c g f show ?thesis by blast
qed

text \<open>
  Claim C7. After \<open>flag.Parse\<close>, each of the three settings holds the value its flag
  (\<open>-listen\<close>, \<open>-path\<close>, \<open>-uri\<close>) was last given on the command line; when the flag
  was not given it holds the value of its environment variable (\<open>ULS_LISTEN\<close>,
  \<open>ULS_PATH\<close>, \<open>ULS_URI\<close>) when that variable is set, and the built-in default
  (\<open>:9101\<close>, \<open>/metrics\<close>, \<open>http://localhost:8080\<close>) otherwise.
\<close>

theorem C7_flag_over_environment_over_default:
  assumes "App_Main_flags environ args = Some app"
  shows "Listen app =
           (case given args ''listen'' of
              Some v \<Rightarrow> v
            | None \<Rightarrow> (case environ ''ULS_LISTEN'' of Some s \<Rightarrow> s | None \<Rightarrow> '':9101'')) \<and>
         Path app =
           (case given args ''path'' of
              Some v \<Rightarrow> v
            | None \<Rightarrow> (case environ ''ULS_PATH'' of Some s \<Rightarrow> s | None \<Rightarrow> ''/metrics'')) \<and>
         URI app =
           (case given args ''uri'' of
              Some v \<Rightarrow> v
            | None \<Rightarrow> (case environ ''ULS_URI'' of Some s \<Rightarrow> s
                        | None \<Rightarrow> ''http://localhost:8080''))"
  using flag_Parse_fields [OF assms [unfolded App_Main_flags_def]]
  by (simp add: envDefault_def split: option.splits)

theorem C7_witness:
  "App_Main_flags [''ULS_LISTEN'' \<mapsto> '':9200'', ''ULS_PATH'' \<mapsto> ''/m'']
     [(''listen'', '':1''), (''listen'', '':2'')] =
     Some \<lparr>Listen = '':2'', Path = ''/m'', URI = ''http://localhost:8080''\<rparr>"
proof -
  let ?env = "[''ULS_LISTEN'' \<mapsto> '':9200'', ''ULS_PATH'' \<mapsto> ''/m'']"
  let ?args = "[(''listen'', '':1''), (''listen'', '':2'')]"
  have "\<exists>app. App_Main_flags ?env ?args = Some app"
    by (simp add: App_Main_flags_def)
  then obtain app where a: "App_Main_flags ?env ?args = Some app" ..
  have "given ?args ''listen'' = Some '':2''" "given ?args ''path'' = None"
    "given ?args ''uri'' = None"
    by (simp_all add: given_def)
  with C7_flag_over_environment_over_default [OF a]
  have "Listen app = '':2'' \<and> Path app = ''/m'' \<and> URI app = ''http://localhost:8080''"
    by simp
  then have "app = \<lparr>Listen = '':2'', Path = ''/m'', URI = ''http://localhost:8080''\<rparr>"
    by (cases app) simp
  with a show ?thesis by simp
qed

text \<open>
  Claim C8. When the upstream answers with status 200 and the body \<open>null\<close>,
  \<open>GetLeases\<close> returns the \<open>nil\<close> slice without error, and \<open>Collect\<close> sends \<open>up\<close>
  with value 1 and \<open>leases\<close> with value 0: exactly what it does when the same
  response carries the empty array instead.
\<close>

theorem C8_null_body_is_zero_leases:
  assumes "URL_Parse w (BaseURL e) ''/v1/admin/lease'' = Inr u"
    and "http_Get w (URL_String u) = Inr res"
    and "StatusCode res = 200"
    and "Body res = Inr (Some JNull)"
  shows "GetLeases w e = (None, None) \<and>
         Collect w e =
           \<lparr>sent = [\<lparr>metricDesc = up, valueType = GaugeValue, metricValue = 1,
                     labelValues = []\<rparr>,
                    \<lparr>metricDesc = lease, valueType = GaugeValue, metricValue = 0,
                     labelValues = []\<rparr>],
            logged = [], panicked = None\<rparr> \<and>
         Collect w e =
           Collect (w\<lparr>http_Get := \<lambda>x. Inr (res\<lparr>Body := Inr (Some (JArray []))\<rparr>)\<rparr>) e"
proof -
  let ?res = "res\<lparr>Body := Inr (Some (JArray []))\<rparr>"
  let ?w = "w\<lparr>http_Get := \<lambda>x. Inr ?res\<rparr>"
  have "json_Unmarshal (decode_Leases w) (Some JNull) None = (None, None)"
    by (simp add: json_Unmarshal_def decode_Leases_def decode_slice_def)
  with GetLeases_200 [OF assms] have g: "GetLeases w e = (None, None)" by simp
  have 1: "URL_Parse ?w (BaseURL e) ''/v1/admin/lease'' = Inr u" using assms(1) by simp
  have 2: "http_Get ?w (URL_String u) = Inr ?res" by simp
  have 3: "StatusCode ?res = 200" using assms(3) by simp
  have 4: "Body ?res = Inr (Some (JArray []))" by simp
  have "json_Unmarshal (decode_Leases ?w) (Some (JArray [])) None = (Some [], None)"
    by (simp add: json_Unmarshal_def decode_Leases_def decode_slice_def)
  with GetLeases_200 [OF 1 2 3 4] have g': "GetLeases ?w e = (Some [], None)" by simp
  from Collect_success [OF g] Collect_success [OF g'] g show ?thesis by (simp add: len_def)
qed

theorem C8_witness:
  "GetLeases (example_world (ok_response JNull)) example_exporter = (None, None) \<and>
   sent (Collect (example_world (ok_response JNull)) example_exporter) =
     [\<lparr>metricDesc = up, valueType = GaugeValue, metricValue = 1, labelValues = []\<rparr>,
      \<lparr>metricDesc = lease, valueType = GaugeValue, metricValue = 0, labelValues = []\<rparr>]"
proof -
  let ?res = "\<lparr>StatusCode = 200, Status = ''200 OK'', Body = Inr (Some JNull)\<rparr>"
  let ?w = "example_world (ok_response JNull)"
  have 1: "URL_Parse ?w (BaseURL example_exporter) ''/v1/admin/lease''
             = Inr ''http://localhost:8080/v1/admin/lease''"
    by (simp add: example_world_def example_exporter_def)
  have 2: "http_Get ?w (URL_String ''http://localhost:8080/v1/admin/lease'') = Inr ?res"
    by (simp add: example_world_def URL_String_def ok_response_def)
  have 3: "StatusCode ?res = 200" by simp
  have 4: "Body ?res = Inr (Some JNull)" by simp
  from C8_null_body_is_zero_leases [OF 1 2 3 4] show ?thesis by simp
qed

text \<open>
  Claim C9. When the upstream answers with status 200 and a JSON array in which one of
  the records has a member \<open>createdTimeUtc\<close> or \<open>lastRenewalTimeUtc\<close> whose value is
  not a JSON string that \<open>time.Parse\<close> accepts in the fixed format, the whole decode fails:
  \<open>Collect\<close> sends only \<open>up\<close> with value 0 and logs the error, whatever the other
  records and members are. For the value \<open>null\<close> the method parses the empty string,
  which \<open>time.Parse\<close> rejects for this layout; the theorem takes that fact of the
  library as its last premise.
\<close>

theorem C9_bad_timestamp_fails_whole_decode:
  assumes "URL_Parse w (BaseURL e) ''/v1/admin/lease'' = Inr u"
    and "http_Get w (URL_String u) = Inr res"
    and "StatusCode res = 200"
    and "Body res = Inr (Some (JArray recs))"
    and "JObject kvs \<in> set recs"
    and "(k, j) \<in> set kvs"
    and "k = ''createdTimeUtc'' \<or> k = ''lastRenewalTimeUtc''"
    and "\<not> timestamp_json w j"
    and "j = JNull \<longrightarrow> (\<exists>e0. time_Parse w TimeUTCFormat [] = Inl e0)"
  shows "\<exists>err. GetLeases w e = (None, Some err) \<and>
           Collect w e =
             \<lparr>sent = [\<lparr>metricDesc = up, valueType = GaugeValue, metricValue = 0,
                       labelValues = []\<rparr>],
              logged = [err], panicked = None\<rparr>"
proof -
  from Unmarshal_leases_bad_time [OF assms(5-9)]
  obtain ls err where "json_Unmarshal (decode_Leases w) (Some (JArray recs)) None = (ls, Some err)"
    by (cases "json_Unmarshal (decode_Leases w) (Some (JArray recs)) None") auto
  with GetLeases_200 [OF assms(1-4)] have g: "GetLeases w e = (None, Some err)" by simp
  from Collect_failure [OF g] g show ?thesis by blast
qed

theorem C9_witness:
  "lease_json (example_world (ok_response
      (JArray [example_lease, JObject [(''lastRenewalTimeUtc'', JNull)], example_lease])))
     example_lease \<and>
   Collect (example_world (ok_response
      (JArray [example_lease, JObject [(''lastRenewalTimeUtc'', JNull)], example_lease])))
     example_exporter =
     \<lparr>sent = [\<lparr>metricDesc = up, valueType = GaugeValue, metricValue = 0, labelValues = []\<rparr>],
      logged = [LibError ''cannot parse''], panicked = None\<rparr>"
proof -
  let ?recs = "[example_lease, JObject [(''lastRenewalTimeUtc'', JNull)], example_lease]"
  let ?res = "\<lparr>StatusCode = 200, Status = ''200 OK'', Body = Inr (Some (JArray ?recs))\<rparr>"
  let ?w = "example_world (ok_response (JArray ?recs))"
  have 1: "URL_Parse ?w (BaseURL example_exporter) ''/v1/admin/lease''
             = Inr ''http://localhost:8080/v1/admin/lease''"
    by (simp add: example_world_def example_exporter_def)
  have 2: "http_Get ?w (URL_String ''http://localhost:8080/v1/admin/lease'') = Inr ?res"
    by (simp add: example_world_def URL_String_def ok_response_def)
  have 3: "StatusCode ?res = 200" by simp
  have 4: "Body ?res = Inr (Some (JArray ?recs))" by simp
  have 5: "JObject [(''lastRenewalTimeUtc'', JNull)] \<in> set ?recs" by simp
  have 6: "(''lastRenewalTimeUtc'', JNull) \<in> set [(''lastRenewalTimeUtc'', JNull)]" by simp
  have 7: "''lastRenewalTimeUtc'' = ''createdTimeUtc'' \<or> ''lastRenewalTimeUtc'' = ''lastRenewalTimeUtc''"
    by simp
  have 8: "\<not> timestamp_json ?w JNull" by simp
  have 9: "JNull = JNull \<longrightarrow> (\<exists>e0. time_Parse ?w TimeUTCFormat [] = Inl e0)"
    by (simp add: example_world_def)
  have ok: "lease_json ?w example_lease"
    by (simp add: example_lease_def example_world_def members_ok_def find_field_def
        lease_fields_def context_fields_def lease_field_json_def TimeUTCFormat_def)
  from C9_bad_timestamp_fails_whole_decode [OF 1 2 3 4 5 6 7 8 9]
  obtain err where g: "GetLeases ?w example_exporter = (None, Some err)"
    and c: "Collect ?w example_exporter =
             \<lparr>sent = [\<lparr>metricDesc = up, valueType = GaugeValue, metricValue = 0,
                       labelValues = []\<rparr>],
              logged = [err], panicked = None\<rparr>" by blast
  have "GetLeases ?w example_exporter = (None, Some (LibError ''cannot parse''))"
    by (simp add: GetLeases_def URL_String_def ok_response_def example_exporter_def
        json_Unmarshal_def decode_Leases_def decode_slice_def decode_Lease_def
        decode_struct_def example_lease_def find_field_def lease_fields_def context_fields_def
        decode_lease_field_def decode_context_field_def decode_Context_def store_def
        decode_TimeUTC_def value_receiver_call_def TimeUTC_UnmarshalJSON_def
        example_world_def TimeUTCFormat_def)
  with g have "err = LibError ''cannot parse''" by simp
  with c ok show ?thesis by simp
qed

text \<open>
  Claim C10. \<open>envDefault\<close> returns the value of the environment variable whenever
  the variable is present, whatever the value is, the empty string included; it
  returns the built-in default only when the variable is absent.
\<close>

theorem C10_envDefault_presence_decides:
  "(env \<in> dom environ \<longrightarrow> environ env = Some (envDefault environ env def)) \<and>
   (env \<notin> dom environ \<longrightarrow> envDefault environ env def = def)"
  by (auto simp: envDefault_def split: option.splits)

theorem C10_witness:
  "''ULS_LISTEN'' \<in> dom [''ULS_LISTEN'' \<mapsto> ''''] \<and>
   envDefault [''ULS_LISTEN'' \<mapsto> ''''] ''ULS_LISTEN'' '':9101'' = '''' \<and>
   ''ULS_LISTEN'' \<notin> dom (Map.empty :: environ) \<and>
   envDefault Map.empty ''ULS_LISTEN'' '':9101'' = '':9101'' \<and>
   App_Main_flags [''ULS_LISTEN'' \<mapsto> ''''] [] =
     Some \<lparr>Listen = '''', Path = ''/metrics'', URI = ''http://localhost:8080''\<rparr>"
proof -
  have 1: "''ULS_LISTEN'' \<in> dom [''ULS_LISTEN'' \<mapsto> '''']" by simp
  have 2: "''ULS_LISTEN'' \<notin> dom (Map.empty :: environ)" by simp
  from C10_envDefault_presence_decides [of "''ULS_LISTEN''" "[''ULS_LISTEN'' \<mapsto> '''']" "'':9101''"] 1
  have a: "envDefault [''ULS_LISTEN'' \<mapsto> ''''] ''ULS_LISTEN'' '':9101'' = ''''" by simp
  from C10_envDefault_presence_decides [of "''ULS_LISTEN''" Map.empty "'':9101''"] 2
  have b: "envDefault Map.empty ''ULS_LISTEN'' '':9101'' = '':9101''" by simp
  have "App_Main_flags [''ULS_LISTEN'' \<mapsto> ''''] [] =
     Some \<lparr>Listen = '''', Path = ''/metrics'', URI = ''http://localhost:8080''\<rparr>"
    using a by (simp add: App_Main_flags_def envDefault_def)
  with 1 2 a b show ?thesis by simp
qed

end
